theory Spec2Isabelle
  imports Main "HOL-Library.AList"
begin

section \<open>The package-init module of the minimap extension\<close>

text \<open>
  The repository is one Python file, \<^verbatim>\<open>__init__.py\<close>:
  \<^verbatim>\<open>
  """
  Minimap extension for ComfyUI.

  This repository contains a custom ComfyUI extension ... implemented in `minimap.js`.
  """

  WEB_DIRECTORY = "."
  \<close>
  Its module body is two statements: a string-literal expression statement (the
  docstring) and one assignment of a string literal to a module-level name.  The body is
  embedded as a statement list and run by a small model of how Python executes a module
  body: a namespace (the module's \<^verbatim>\<open>__dict__\<close>), errors as values, and the
  world outside the module passed through explicitly.
\<close>

subsection \<open>Values, errors, the world outside the module\<close>

datatype pyval = Str string | NoneVal | Func string | Class string

datatype pyerror = NameError string | KeyError string | AttributeError string

text \<open>A module namespace is a Python dict: keys in insertion order, no duplicates.\<close>

type_synonym namespace = "(string \<times> pyval) list"

datatype node = File | Dir bool

text \<open>
  A disk: absolute paths, as lists of components, with what is stored there.  The flag
  of a directory says whether it may be listed (read permission).
\<close>

type_synonym filesystem = "(string list \<times> node) list"

record world =
  files :: filesystem
  environ :: "(string \<times> string) list"
  argv :: "string list"
  stdout :: "string list"

type_synonym pystate = "world \<times> namespace"

subsection \<open>Expressions and statements of a module body\<close>

text \<open>
  Beside the two statement forms the module uses, the fragment has the forms by which
  a module body can raise (a name that is not bound, a missing environment variable),
  read its environment, print, or define a function or a class: that the module does
  none of these is then a fact about its body.
\<close>

datatype expr = Const pyval | Name string | Getenv string

datatype stmt =
    ExprStmt expr
  | Assign string expr
  | Def string
  | ClassDef string
  | Print expr

fun eval_expr :: "pystate \<Rightarrow> expr \<Rightarrow> pyerror + pyval" where
  "eval_expr s (Const v) = Inr v"
| "eval_expr (w, g) (Name n) =
     (case map_of g n of Some v \<Rightarrow> Inr v | None \<Rightarrow> Inl (NameError n))"
| "eval_expr (w, g) (Getenv k) =
     (case map_of (environ w) k of Some v \<Rightarrow> Inr (Str v) | None \<Rightarrow> Inl (KeyError k))"

fun py_str :: "pyval \<Rightarrow> string" where
  "py_str (Str s) = s"
| "py_str NoneVal = ''None''"
| "py_str (Func n) = ''<function '' @ n @ ''>''"
| "py_str (Class n) = ''<class '' @ n @ ''>''"

text \<open>Storing a name rebinds it in place when it is bound and appends it otherwise.\<close>

definition store_name :: "string \<Rightarrow> pyval \<Rightarrow> namespace \<Rightarrow> namespace" where
  "store_name n v g = AList.update n v g"

fun exec_stmt :: "stmt \<Rightarrow> pystate \<Rightarrow> pyerror + pystate" where
  "exec_stmt (ExprStmt e) (w, g) =
     (case eval_expr (w, g) e of Inl err \<Rightarrow> Inl err | Inr v \<Rightarrow> Inr (w, g))"
| "exec_stmt (Assign n e) (w, g) =
     (case eval_expr (w, g) e of Inl err \<Rightarrow> Inl err | Inr v \<Rightarrow> Inr (w, store_name n v g))"
| "exec_stmt (Def n) (w, g) = Inr (w, store_name n (Func n) g)"
| "exec_stmt (ClassDef n) (w, g) = Inr (w, store_name n (Class n) g)"
| "exec_stmt (Print e) (w, g) =
     (case eval_expr (w, g) e of
        Inl err \<Rightarrow> Inl err
      | Inr v \<Rightarrow> Inr (w\<lparr>stdout := stdout w @ [py_str v]\<rparr>, g))"

text \<open>A block stops at the first statement that raises.\<close>

fun exec_block :: "stmt list \<Rightarrow> pystate \<Rightarrow> pyerror + pystate" where
  "exec_block [] s = Inr s"
| "exec_block (c # cs) s =
     (case exec_stmt c s of Inl err \<Rightarrow> Inl err | Inr s' \<Rightarrow> exec_block cs s')"

text \<open>
  A string literal that is the first statement of a module is its docstring: it is
  stored under \<^verbatim>\<open>__doc__\<close>, and the rest of the body runs after it.
\<close>

fun exec_module :: "stmt list \<Rightarrow> pystate \<Rightarrow> pyerror + pystate" where
  "exec_module (ExprStmt (Const (Str d)) # cs) (w, g) =
     exec_block cs (w, store_name ''__doc__'' (Str d) g)"
| "exec_module cs s = exec_block cs s"

subsection \<open>The module\<close>

definition module_doc :: string where
  "module_doc =
     ''\<newline>Minimap extension for ComfyUI.\<newline>\<newline>'' @
     ''This repository contains a custom ComfyUI extension that provides a minimap overlay. '' @
     ''Place this directory inside your ComfyUI `custom_nodes` folder to enable the minimap. '' @
     ''The interactive behaviour is implemented in `minimap.js`.\<newline>''"

definition module_body :: "stmt list" where
  "module_body =
     [ExprStmt (Const (Str module_doc)),
      Assign ''WEB_DIRECTORY'' (Const (Str ''.''))]"

text \<open>
  The namespace the import system hands to a module body holds only the module
  attributes it sets itself, all of them dunder names; the string-valued ones are kept.
\<close>

definition fresh_globals :: "string \<Rightarrow> string \<Rightarrow> namespace" where
  "fresh_globals name file =
     [(''__name__'', Str name), (''__doc__'', NoneVal),
      (''__package__'', Str name), (''__file__'', Str file)]"

definition import_module :: "world \<Rightarrow> string \<Rightarrow> string \<Rightarrow> pyerror + pystate" where
  "import_module w name file = exec_module module_body (w, fresh_globals name file)"

subsection \<open>What the host reads\<close>

text \<open>
  The host looks the module attribute \<^verbatim>\<open>WEB_DIRECTORY\<close> up by name; a missing
  attribute is an AttributeError.
\<close>

definition getattr :: "namespace \<Rightarrow> string \<Rightarrow> pyerror + pyval" where
  "getattr g n = (case map_of g n of Some v \<Rightarrow> Inr v | None \<Rightarrow> Inl (AttributeError n))"

definition web_directory :: "pyerror + pystate \<Rightarrow> string option" where
  "web_directory r =
     (case r of
        Inl err \<Rightarrow> None
      | Inr (w, g) \<Rightarrow> (case getattr g ''WEB_DIRECTORY'' of Inr (Str p) \<Rightarrow> Some p | _ \<Rightarrow> None))"

text \<open>An absolute POSIX path starts with a slash.\<close>

fun isabs :: "string \<Rightarrow> bool" where
  "isabs [] = False"
| "isabs (c # cs) = (c = CHR ''/'')"

subsection \<open>Paths as the host resolves them\<close>

text \<open>
  The host is not part of the repository.  It resolves the announced value against the
  directory that holds the module file, with the path operations of the POSIX flavour
  of \<^verbatim>\<open>os.path\<close>: \<^verbatim>\<open>isabs\<close> above, \<^verbatim>\<open>join\<close>, and component-wise resolution
  (an empty component and \<^verbatim>\<open>.\<close> stay, \<^verbatim>\<open>..\<close> goes up and stays at the root).
\<close>

fun split_path :: "string \<Rightarrow> string list" where
  "split_path [] = [[]]"
| "split_path (c # cs) =
     (if c = CHR ''/'' then [] # split_path cs
      else (case split_path cs of [] \<Rightarrow> [[c]] | x # xs \<Rightarrow> (c # x) # xs))"

fun enter :: "string list \<Rightarrow> string \<Rightarrow> string list" where
  "enter dir seg =
     (if seg = [] \<or> seg = ''.'' then dir
      else if seg = ''..'' then butlast dir
      else dir @ [seg])"

definition resolve :: "string list \<Rightarrow> string \<Rightarrow> string list" where
  "resolve base p = foldl enter (if isabs p then [] else base) (split_path p)"

definition path_join :: "string \<Rightarrow> string \<Rightarrow> string" where
  "path_join a b =
     (if isabs b then b
      else if a = [] \<or> last a = CHR ''/'' then a @ b
      else a @ ''/'' @ b)"

text \<open>The directory that holds the module file, from the module's \<^verbatim>\<open>__file__\<close>.\<close>

definition module_dir :: "string \<Rightarrow> string list" where
  "module_dir file = butlast (resolve [] file)"

text \<open>A name a directory entry can have.\<close>

definition valid_filename :: "string \<Rightarrow> bool" where
  "valid_filename f = (f \<noteq> [] \<and> CHR ''/'' \<notin> set f \<and> f \<noteq> ''.'' \<and> f \<noteq> ''..'')"

subsection \<open>The disk\<close>

definition is_dir :: "filesystem \<Rightarrow> string list \<Rightarrow> bool" where
  "is_dir fs p = (case map_of fs p of Some (Dir r) \<Rightarrow> True | _ \<Rightarrow> False)"

definition readable_dir :: "filesystem \<Rightarrow> string list \<Rightarrow> bool" where
  "readable_dir fs p = (case map_of fs p of Some (Dir r) \<Rightarrow> r | _ \<Rightarrow> False)"

definition is_file :: "filesystem \<Rightarrow> string list \<Rightarrow> bool" where
  "is_file fs p = (case map_of fs p of Some File \<Rightarrow> True | _ \<Rightarrow> False)"

definition listdir :: "filesystem \<Rightarrow> string list \<Rightarrow> string list" where
  "listdir fs d = map (last \<circ> fst) (filter (\<lambda>(p, n). p \<noteq> [] \<and> butlast p = d) fs)"

text \<open>
  A disk is a tree: the root, when it is listed, is a directory, and every other entry
  lies in a directory of the disk.
\<close>

definition wf_disk :: "filesystem \<Rightarrow> bool" where
  "wf_disk fs =
     list_all (\<lambda>(p, n). if p = [] then is_dir fs [] else is_dir fs (butlast p)) fs"

subsection \<open>The lifetime of the registration\<close>

text \<open>
  The spec's state machine: unregistered (no namespace) and registered.  The host
  imports the module and reads the attribute.  An import of a module that is already
  loaded is answered from the import cache: the body is not run again.
\<close>

datatype event = Load | Read

type_synonym session = "world \<times> namespace option"

fun host_step :: "string \<Rightarrow> string \<Rightarrow> session \<Rightarrow> event \<Rightarrow> session" where
  "host_step name file (w, None) Load =
     (case import_module w name file of
        Inl err \<Rightarrow> (w, None)
      | Inr (w', g') \<Rightarrow> (w', Some g'))"
| "host_step name file (w, Some g) Load = (w, Some g)"
| "host_step name file s Read = s"

definition run :: "string \<Rightarrow> string \<Rightarrow> session \<Rightarrow> event list \<Rightarrow> session" where
  "run name file s es = foldl (host_step name file) s es"

fun read_export :: "session \<Rightarrow> string option" where
  "read_export (w, None) = None"
| "read_export (w, Some g) = web_directory (Inr (w, g))"

text \<open>The statements that bind a given module-level name.\<close>

fun binds :: "string \<Rightarrow> stmt \<Rightarrow> bool" where
  "binds n (Assign m e) = (m = n)"
| "binds n (Def m) = (m = n)"
| "binds n (ClassDef m) = (m = n)"
| "binds n c = False"

subsection \<open>The public surface of a module\<close>

text \<open>Without \<^verbatim>\<open>__all__\<close>, the public names are those that do not start with an underscore.\<close>

fun is_private :: "string \<Rightarrow> bool" where
  "is_private [] = False"
| "is_private (c # cs) = (c = CHR ''_'')"

definition public_bindings :: "namespace \<Rightarrow> namespace" where
  "public_bindings g = filter (\<lambda>(n, v). \<not> is_private n) g"

fun is_callable :: "pyval \<Rightarrow> bool" where
  "is_callable (Func n) = True"
| "is_callable (Class n) = True"
| "is_callable v = False"

fun is_definition :: "stmt \<Rightarrow> bool" where
  "is_definition (Def n) = True"
| "is_definition (ClassDef n) = True"
| "is_definition c = False"

subsection \<open>Concrete installations\<close>

definition install_file :: string where
  "install_file = ''/custom_nodes/minimap/__init__.py''"

text \<open>The package as the repository ships it: the module file and no script.\<close>

definition bare_install :: world where
  "bare_install =
     \<lparr>files =
        [([''custom_nodes''], Dir True),
         ([''custom_nodes'', ''minimap''], Dir True),
         ([''custom_nodes'', ''minimap'', ''__init__.py''], File)],
      environ = [], argv = [], stdout = []\<rparr>"

text \<open>
  The same package in a directory that may be traversed but not listed (mode 0311):
  the module file in it can be opened by its path, so the module loads.
\<close>

definition exec_only_install :: world where
  "exec_only_install =
     \<lparr>files =
        [([], Dir True),
         ([''custom_nodes''], Dir True),
         ([''custom_nodes'', ''minimap''], Dir False),
         ([''custom_nodes'', ''minimap'', ''__init__.py''], File)],
      environ = [], argv = [], stdout = []\<rparr>"

section \<open>Properties\<close>

subsection \<open>Running the module body\<close>

lemma exec_module_body:
  "exec_module module_body (w, g) =
     Inr (w, store_name ''WEB_DIRECTORY'' (Str ''.'') (store_name ''__doc__'' (Str module_doc) g))"
  by (simp add: module_body_def)

lemma import_module_result:
  "import_module w name file =
     Inr (w, [(''__name__'', Str name), (''__doc__'', Str module_doc),
              (''__package__'', Str name), (''__file__'', Str file),
              (''WEB_DIRECTORY'', Str ''.'')])"
  by (simp add: import_module_def exec_module_body fresh_globals_def store_name_def)

lemma getattr_store_same: "getattr (store_name n v g) n = Inr v"
  by (simp add: getattr_def store_name_def update_conv')

lemma web_directory_body: "web_directory (exec_module module_body (w, g)) = Some ''.''"
  by (simp add: exec_module_body web_directory_def getattr_store_same)

lemma web_directory_import: "web_directory (import_module w name file) = Some ''.''"
  by (simp add: import_module_def web_directory_body)

subsection \<open>Path facts\<close>

lemma split_path_no_slash: "CHR ''/'' \<notin> set f \<Longrightarrow> split_path f = [f]"
  by (induction f) auto

lemma resolve_dot: "resolve base ''.'' = base"
  by (simp add: resolve_def)

lemma path_join_dot: "valid_filename f \<Longrightarrow> path_join ''.'' f = ''./'' @ f"
  by (cases f) (auto simp: path_join_def valid_filename_def)

lemma resolve_join_dot:
  assumes "valid_filename f"
  shows "resolve base (path_join ''.'' f) = base @ [f]"
proof -
  from assms have "split_path f = [f]"
    by (simp add: valid_filename_def split_path_no_slash)
  then have "split_path (''./'' @ f) = [''.'', f]"
    by simp
  with assms have "resolve base (''./'' @ f) = base @ [f]"
    by (simp add: resolve_def valid_filename_def)
  with assms show ?thesis
    by (simp only: path_join_dot)
qed

subsection \<open>The registered session\<close>

lemma run_registered: "run name file (w, Some g) es = (w, Some g)"
  unfolding run_def
proof (induction es)
  case Nil
  show ?case by simp
next
  case (Cons e es)
  then show ?case by (cases e) simp_all
qed

lemma run_after_load:
  "run name file (w, None) (Load # es) = run name file (w, None) [Load]"
  by (simp add: run_def import_module_result run_registered [unfolded run_def])

lemma read_after_load: "read_export (run name file (w, None) (Load # es)) = Some ''.''"
proof -
  have "read_export (run name file (w, None) [Load]) = Some ''.''"
    by (simp add: run_def import_module_result web_directory_def getattr_def)
  moreover have "run name file (w, None) (Load # es) = run name file (w, None) [Load]"
    by (rule run_after_load)
  ultimately show ?thesis
    by (rule ssubst [where P = "\<lambda>s. read_export s = Some ''.''", rotated])
qed

subsection \<open>The claims\<close>

text \<open>
  C1: on load the module exposes exactly one output to the host.  The public bindings
  of the loaded module are one pair: the name \<^verbatim>\<open>WEB_DIRECTORY\<close>, which the host looks
  up, bound to a string; resolved against the directory that holds the module file, that
  string denotes this very directory.
\<close>

theorem exposes_one_path:
  "\<exists>g' p. import_module w name file = Inr (w, g') \<and>
     public_bindings g' = [(''WEB_DIRECTORY'', Str p)] \<and>
     getattr g' ''WEB_DIRECTORY'' = Inr (Str p) \<and>
     resolve (module_dir file) p = module_dir file"
  by (simp add: import_module_result public_bindings_def getattr_def resolve_dot)

text \<open>
  C2: the exported value is set once at load and not changed afterwards.  The module
  body has exactly one statement that binds \<^verbatim>\<open>WEB_DIRECTORY\<close>; once the host has loaded
  the module, no further sequence of loads and reads changes the session, every read
  yields the path \<^verbatim>\<open>"."\<close>, and so any two reads of one lifetime agree.
\<close>

theorem export_stable:
  "length (filter (binds ''WEB_DIRECTORY'') module_body) = 1 \<and>
   run name file (w, None) (Load # es) = run name file (w, None) [Load] \<and>
   read_export (run name file (w, None) (Load # es)) = Some ''.'' \<and>
   read_export (run name file (w, None) (Load # es @ es')) =
     read_export (run name file (w, None) (Load # es))"
proof -
  have "length (filter (binds ''WEB_DIRECTORY'') module_body) = 1"
    by (simp add: module_body_def)
  moreover have "read_export (run name file (w, None) (Load # es @ es')) = Some ''.''"
    by (rule read_after_load)
  moreover have "read_export (run name file (w, None) (Load # es)) = Some ''.''"
    by (rule read_after_load)
  moreover have "run name file (w, None) (Load # es) = run name file (w, None) [Load]"
    by (rule run_after_load)
  ultimately show ?thesis
    by (simp only: simp_thms)
qed

text \<open>
  C3: loading the declaration never raises.  Whatever the world outside the module is
  (disk, environment variables, command line, what was printed so far) and whatever
  namespace the body is run in, executing the module body ends normally, with a state and
  not with an error.
\<close>

theorem load_never_raises:
  "\<exists>s'. exec_module module_body (w, g) = Inr s'"
  by (simp add: exec_module_body)

text \<open>
  C4: the value bound to \<^verbatim>\<open>WEB_DIRECTORY\<close> is the string \<^verbatim>\<open>"."\<close>: one character long
  and not an absolute path.  What it denotes is the directory it is resolved against:
  two installation directories give the same result only when they are the same.
\<close>

theorem web_directory_is_dot:
  "\<exists>p. web_directory (import_module w name file) = Some p \<and>
     p = ''.'' \<and> length p = 1 \<and> \<not> isabs p \<and>
     (resolve d1 p = resolve d2 p) = (d1 = d2)"
  by (simp add: web_directory_import resolve_dot)

text \<open>
  C5: the registrar handles no error condition of the asset directory.  When the
  directory \<open>d\<close> that the host takes the announcement to denote is not a directory on
  the disk, or is empty, or has no entry \<^verbatim>\<open>minimap.js\<close>, the load still ends normally,
  announces the same value, and reports nothing: no error value, and nothing printed.
\<close>

theorem load_ignores_missing_assets:
  assumes "\<not> is_dir (files w) d \<or> listdir (files w) d = [] \<or>
           ''minimap.js'' \<notin> set (listdir (files w) d)"
  shows "\<exists>w' g'. import_module w name file = Inr (w', g') \<and>
           stdout w' = stdout w \<and>
           web_directory (import_module w name file) = Some ''.''"
  by (simp add: web_directory_import) (simp add: import_module_result)

theorem load_ignores_missing_assets_witness:
  "''minimap.js'' \<notin> set (listdir (files bare_install) (module_dir install_file)) \<and>
   (\<exists>w' g'. import_module bare_install ''minimap'' install_file = Inr (w', g') \<and>
      stdout w' = stdout bare_install \<and>
      web_directory (import_module bare_install ''minimap'' install_file) = Some ''.'')"
proof -
  have h: "''minimap.js'' \<notin> set (listdir (files bare_install) (module_dir install_file))"
    by (simp add: listdir_def bare_install_def module_dir_def install_file_def resolve_def)
  then have "\<not> is_dir (files bare_install) (module_dir install_file) \<or>
      listdir (files bare_install) (module_dir install_file) = [] \<or>
      ''minimap.js'' \<notin> set (listdir (files bare_install) (module_dir install_file))"
    by simp
  from load_ignores_missing_assets [OF this] h show ?thesis
    by simp
qed

text \<open>
  C6: loading has no effect beyond the module's own bindings.  For every world and
  every namespace the body is run in, the world comes back as it was (disk, environment,
  arguments, output), and the namespace differs from the one before only in the two
  names the module binds: \<^verbatim>\<open>WEB_DIRECTORY\<close> and the docstring under \<^verbatim>\<open>__doc__\<close>.
\<close>

theorem load_frame:
  "\<exists>g'. exec_module module_body (w, g) = Inr (w, g') \<and>
     map_of g' =
       (map_of g)(''__doc__'' \<mapsto> Str module_doc, ''WEB_DIRECTORY'' \<mapsto> Str ''.'')"
  by (simp add: exec_module_body store_name_def update_conv')

text \<open>
  C7, as the code has it: resolved against the directory that holds the module file,
  the exported value points to that directory itself, and on every disk that is a tree
  and holds the module file this is an existing directory.  That it can be read is not
  ensured: the module checks no permission.
\<close>

theorem resolved_dir_exists:
  assumes "wf_disk (files w)" and "is_file (files w) (resolve [] file)"
  shows "\<exists>p. web_directory (import_module w name file) = Some p \<and>
           resolve (module_dir file) p = module_dir file \<and>
           is_dir (files w) (resolve (module_dir file) p)"
proof -
  from assms(2) have stored: "map_of (files w) (resolve [] file) = Some File"
    by (simp add: is_file_def split: option.splits node.splits)
  then have "(resolve [] file, File) \<in> set (files w)"
    by (rule map_of_SomeD)
  with assms(1) have parent:
    "if resolve [] file = [] then is_dir (files w) []
     else is_dir (files w) (butlast (resolve [] file))"
    by (auto simp: wf_disk_def list_all_iff)
  have "resolve [] file \<noteq> []"
  proof
    assume root: "resolve [] file = []"
    with parent have "is_dir (files w) []"
      by simp
    with stored root show False
      by (simp add: is_dir_def)
  qed
  with parent have "is_dir (files w) (module_dir file)"
    by (simp add: module_dir_def)
  then show ?thesis
    by (simp add: web_directory_import resolve_dot)
qed

theorem resolved_dir_exists_witness:
  "wf_disk (files exec_only_install) \<and>
   is_file (files exec_only_install) (resolve [] install_file) \<and>
   (\<exists>p. web_directory (import_module exec_only_install ''minimap'' install_file) = Some p \<and>
      resolve (module_dir install_file) p = module_dir install_file \<and>
      is_dir (files exec_only_install) (resolve (module_dir install_file) p))"
proof -
  have tree: "wf_disk (files exec_only_install)"
    by (simp add: wf_disk_def exec_only_install_def is_dir_def)
  have stored: "is_file (files exec_only_install) (resolve [] install_file)"
    by (simp add: exec_only_install_def install_file_def resolve_def is_file_def)
  from resolved_dir_exists [OF tree stored] tree stored show ?thesis
    by blast
qed

text \<open>
  C7 as stated fails on "readable": the package installed in a directory that can be
  traversed but not listed is on a disk that is a tree and holds the module file; the
  module loads there and announces \<^verbatim>\<open>"."\<close>, and the directory this resolves to exists
  but is not readable.
\<close>

theorem resolved_dir_unreadable_counterexample:
  "wf_disk (files exec_only_install) \<and>
   is_file (files exec_only_install) (resolve [] install_file) \<and>
   web_directory (import_module exec_only_install ''minimap'' install_file) = Some ''.'' \<and>
   is_dir (files exec_only_install) (resolve (module_dir install_file) ''.'') \<and>
   \<not> readable_dir (files exec_only_install) (resolve (module_dir install_file) ''.'')"
  by (simp add: web_directory_import resolve_dot)
    (simp add: exec_only_install_def install_file_def module_dir_def resolve_def
      wf_disk_def is_file_def is_dir_def readable_dir_def)

text \<open>
  C8: path-join correctness.  For every file name \<open>f\<close> that a directory entry can
  have, joining the announced path and \<open>f\<close> (the join of \<^verbatim>\<open>os.path\<close>, which puts the
  separator between them) gives a path that resolves to the entry \<open>f\<close> of the
  announced directory, whatever directory \<open>base\<close> the host resolves against; so what
  the disk holds under the joined path is what it holds in that entry.
\<close>

theorem join_locates_file:
  assumes "valid_filename f"
  shows "\<exists>p. web_directory (import_module w name file) = Some p \<and>
           resolve base (path_join p f) = resolve base p @ [f] \<and>
           map_of fs (resolve base (path_join p f)) = map_of fs (resolve base p @ [f])"
  using assms
  by (simp add: web_directory_import resolve_join_dot resolve_dot)

theorem join_locates_file_witness:
  "valid_filename ''minimap.js'' \<and>
   (\<exists>p. web_directory (import_module bare_install ''minimap'' install_file) = Some p \<and>
      resolve [''custom_nodes'', ''minimap''] (path_join p ''minimap.js'') =
        resolve [''custom_nodes'', ''minimap''] p @ [''minimap.js''] \<and>
      map_of (files bare_install)
          (resolve [''custom_nodes'', ''minimap''] (path_join p ''minimap.js'')) =
        map_of (files bare_install)
          (resolve [''custom_nodes'', ''minimap''] p @ [''minimap.js'']))"
proof -
  have h: "valid_filename ''minimap.js''"
    by (simp add: valid_filename_def)
  from join_locates_file [OF h] h show ?thesis
    by blast
qed

text \<open>
  C9: the registrar takes no input.  Two loads give the same exported value whatever
  the two worlds are (disk, environment variables, command-line arguments, earlier
  output), whatever name and file the module is loaded under, and whatever namespace the
  body is run in.
\<close>

theorem export_independent_of_environment:
  "web_directory (import_module w1 name1 file1) =
     web_directory (import_module w2 name2 file2) \<and>
   web_directory (exec_module module_body (w1, g1)) =
     web_directory (exec_module module_body (w2, g2))"
  by (simp add: web_directory_import web_directory_body)

text \<open>
  C10: \<^verbatim>\<open>WEB_DIRECTORY\<close> is the module's whole interface.  After the load the only
  public name is \<^verbatim>\<open>WEB_DIRECTORY\<close>; the docstring is there under \<^verbatim>\<open>__doc__\<close>; no value
  of the namespace is a function or a class, no statement of the body defines one; and
  the host's other entry point, \<^verbatim>\<open>NODE_CLASS_MAPPINGS\<close>, is not an attribute.
\<close>

theorem single_public_binding:
  "\<exists>g'. import_module w name file = Inr (w, g') \<and>
     map fst (public_bindings g') = [''WEB_DIRECTORY''] \<and>
     getattr g' ''__doc__'' = Inr (Str module_doc) \<and>
     filter is_callable (map snd g') = [] \<and>
     filter is_definition module_body = [] \<and>
     getattr g' ''NODE_CLASS_MAPPINGS'' = Inl (AttributeError ''NODE_CLASS_MAPPINGS'')"
  by (simp add: import_module_result public_bindings_def getattr_def module_body_def)

end
